theory Spec2Isabelle
  imports Main "HOL-Library.Sublist"
begin

section \<open>JavaScript values used by the dashboard\<close>

text \<open>
  The dashboard exchanges JSON records with a scheduling backend and keeps a display
  projection of them in a React hook.  JavaScript numbers are modelled by their exact
  integer values (\<open>int\<close>): delays in minutes, due times in seconds, clock readings and
  Date time values in milliseconds.  \<open>NaN\<close>, infinities, fractions and rounding are
  outside the model.  An optional field (\<open>due_time?: number\<close>) is an \<open>option\<close>, where
  \<open>None\<close> is JavaScript's \<open>undefined\<close>.  Strings are \<open>string\<close>.  Values have the shapes
  that the TypeScript interfaces declare, except that a body received from the backend may
  lack the array the hook maps over.

  A thrown value is either an instance of \<open>Error\<close> (with its class and message) or some
  other value; the hook's \<open>catch\<close> blocks only look at that difference.
\<close>

datatype error_class = ErrorC | TypeErrorC | RangeErrorC | SyntaxErrorC

datatype exn = JsError error_class string | Thrown

text \<open>\<open>xs[i]\<close>: an index past the end reads \<open>undefined\<close>, it does not throw.\<close>

definition at_index :: "'a list \<Rightarrow> nat \<Rightarrow> 'a option" where
  "at_index xs i = (if i < length xs then Some (xs ! i) else None)"

text \<open>Truthiness: \<open>undefined\<close>, the empty string and \<open>0\<close> are falsy.\<close>

definition truthy_str :: "string option \<Rightarrow> bool" where
  "truthy_str v = (case v of None \<Rightarrow> False | Some s \<Rightarrow> s \<noteq> [])"

definition truthy_num :: "int option \<Rightarrow> bool" where
  "truthy_num v = (case v of None \<Rightarrow> False | Some n \<Rightarrow> n \<noteq> 0)"

text \<open>\<open>a || b\<close> where \<open>b\<close> may itself be \<open>undefined\<close>, and where \<open>b\<close> is a literal.\<close>

definition or_str :: "string option \<Rightarrow> string option \<Rightarrow> string option" where
  "or_str a b = (if truthy_str a then a else b)"

definition or_str_lit :: "string option \<Rightarrow> string \<Rightarrow> string" where
  "or_str_lit a d = (case a of None \<Rightarrow> d | Some s \<Rightarrow> if s \<noteq> [] then s else d)"

definition or_num_lit :: "int option \<Rightarrow> int \<Rightarrow> int" where
  "or_num_lit a d = (case a of None \<Rightarrow> d | Some n \<Rightarrow> if n \<noteq> 0 then n else d)"

text \<open>
  A \<open>Date\<close> holds a time value in milliseconds since the epoch; it is valid when the
  time value is at most \<open>8.64e15\<close> in absolute value.  \<open>toISOString\<close> throws a
  \<open>RangeError\<close> on an invalid date.  The ISO string of a valid date is represented by
  the time value it denotes, which is what parsing it back with \<open>new Date(s).getTime()\<close>
  returns.  So the \<open>eta\<close> of a display train is a time value; strings that are not ISO
  dates are outside the model.
\<close>

definition max_time_value :: int where
  "max_time_value = 8640000000000000"

definition toISOString :: "int \<Rightarrow> exn + int" where
  "toISOString tv =
     (if \<bar>tv\<bar> \<le> max_time_value then Inr tv
      else Inl (JsError RangeErrorC ''Invalid time value''))"

definition getTime :: "int \<Rightarrow> int" where
  "getTime isoString = isoString"

section \<open>Wire records (lib/api)\<close>

record BackendTrain =
  id_bt :: string
  priority :: int
  planned_departure :: int
  route_sections :: "string list"
  due_time :: "int option"
  current_delay_minutes :: "int option"

record BackendSection =
  id_sec :: string
  platform_capacity :: "int option"
  conflicts_with :: "(string \<times> int) list option"
  conflict_groups :: "(string \<times> int) list option"

record BackendState =
  trains_bs :: "BackendTrain list"
  sections_bs :: "BackendSection list"

record PredictedConflict =
  train_ids :: "string list"
  section_id :: string
  predicted_conflict_time :: int

record PredictionResponse =
  predicted_delay_minutes :: "(string \<times> int) list"
  predicted_conflicts :: "PredictedConflict list"

section \<open>Display records (hooks/useRealTimeData)\<close>

record FrontendTrain =
  id_ft :: string
  name :: string
  status :: string
  currentLocation :: string
  delay :: int
  nextStation :: string
  eta :: int

record FrontendState =
  trains_fs :: "FrontendTrain list"
  sections_fs :: "BackendSection list"

section \<open>Transform functions\<close>

text \<open>
  The callback of \<open>backendState.trains.map\<close> in \<open>transformBackendToFrontend\<close>.  \<open>now\<close> is
  what \<open>Date.now()\<close> returns in this invocation.  The properties of the object literal
  are evaluated in order, and only the last one (\<open>eta\<close>) can throw.
\<close>

definition transformTrain :: "int \<Rightarrow> BackendTrain \<Rightarrow> exn + FrontendTrain" where
  "transformTrain now train =
     (case toISOString (now + or_num_lit (due_time train) 0 * 1000) of
        Inl e \<Rightarrow> Inl e
      | Inr isoString \<Rightarrow> Inr \<lparr>
          id_ft = id_bt train,
          name = ''Train '' @ id_bt train,
          status =
            (if truthy_num (current_delay_minutes train) \<and>
                (case current_delay_minutes train of None \<Rightarrow> False | Some d \<Rightarrow> d > 0)
             then ''delayed'' else ''on-time''),
          currentLocation = or_str_lit (at_index (route_sections train) 0) ''Unknown'',
          delay = or_num_lit (current_delay_minutes train) 0,
          nextStation =
            or_str_lit (or_str (at_index (route_sections train) 1)
                               (at_index (route_sections train) 0)) ''Terminal'',
          eta = isoString \<rparr>)"

text \<open>
  \<open>Array.prototype.map\<close> with a callback that may throw: elements are visited from the
  left and the first exception ends the traversal.  \<open>clock i\<close> is the reading of
  \<open>Date.now()\<close> in the callback for index \<open>i\<close>.
\<close>

fun transformTrains :: "(nat \<Rightarrow> int) \<Rightarrow> nat \<Rightarrow> BackendTrain list \<Rightarrow> exn + FrontendTrain list" where
  "transformTrains clock i [] = Inr []"
| "transformTrains clock i (train # rest) =
     (case transformTrain (clock i) train of
        Inl e \<Rightarrow> Inl e
      | Inr t \<Rightarrow>
          (case transformTrains clock (Suc i) rest of
             Inl e \<Rightarrow> Inl e
           | Inr ts \<Rightarrow> Inr (t # ts)))"

definition transformBackendToFrontend :: "(nat \<Rightarrow> int) \<Rightarrow> BackendState \<Rightarrow> exn + FrontendState" where
  "transformBackendToFrontend clock backendState =
     (case transformTrains clock 0 (trains_bs backendState) of
        Inl e \<Rightarrow> Inl e
      | Inr trains \<Rightarrow> Inr \<lparr> trains_fs = trains, sections_fs = sections_bs backendState \<rparr>)"

definition hard_coded_sections :: "BackendSection list" where
  "hard_coded_sections =
     [ \<lparr> id_sec = ''S1'', platform_capacity = Some 1, conflicts_with = None, conflict_groups = None \<rparr>,
       \<lparr> id_sec = ''S2'', platform_capacity = Some 1, conflicts_with = None, conflict_groups = None \<rparr>,
       \<lparr> id_sec = ''S3'', platform_capacity = Some 1, conflicts_with = None, conflict_groups = None \<rparr> ]"

definition transformFrontendToBackend :: "(nat \<Rightarrow> int) \<Rightarrow> FrontendTrain list \<Rightarrow> BackendState" where
  "transformFrontendToBackend clock trains =
     \<lparr> trains_bs =
         map (\<lambda>(index, train). \<lparr>
                id_bt = id_ft train,
                priority = 1,
                planned_departure = 0,
                route_sections = [currentLocation train, nextStation train],
                due_time = Some ((getTime (eta train) - clock index) div 1000),
                current_delay_minutes = Some (delay train) \<rparr>)
             (enumerate 0 trains),
       sections_bs = hard_coded_sections \<rparr>"

section \<open>API client (lib/api)\<close>

text \<open>Template literals print a number in decimal and a boolean as \<open>true\<close> or \<open>false\<close>.\<close>

definition digit_char :: "nat \<Rightarrow> char" where
  "digit_char d = ''0123456789'' ! d"

fun show_nat :: "nat \<Rightarrow> string" where
  "show_nat n = (if n < 10 then [digit_char n] else show_nat (n div 10) @ [digit_char (n mod 10)])"

declare show_nat.simps [simp del]

definition show_bool :: "bool \<Rightarrow> string" where
  "show_bool b = (if b then ''true'' else ''false'')"

definition API_BASE_URL :: string where
  "API_BASE_URL = ''http://localhost:8000''"

record Kpis =
  total_lateness :: int
  otp_count :: int
  total_trains :: int

record ScheduleEntry =
  section_se :: string
  entry_time :: int
  exit_time :: int

record ScheduleResponse =
  kpis :: Kpis
  schedule :: "(string \<times> ScheduleEntry list) list"
  lateness_by_train :: "(string \<times> int) list option"

text \<open>
  A request body is the value that \<open>JSON.stringify\<close> serialises.  \<open>RequestInit\<close> has
  the three optional members the client uses.
\<close>

datatype payload = StateBody BackendState | ResolveBody BackendState "PredictedConflict list option"

record RequestInit =
  http_method :: "string option"
  headers :: "(string \<times> string) list option"
  body :: "payload option"

record fetch_call =
  url :: string
  init :: RequestInit

text \<open>
  A response carries its status line and what \<open>response.json()\<close> settles with: the
  parsed body, or the exception of a body that does not parse.  \<open>response.ok\<close> is true
  exactly for the statuses 200 to 299.
\<close>

record 'a response =
  status_r :: nat
  statusText :: string
  json :: "exn + 'a"

definition ok :: "'a response \<Rightarrow> bool" where
  "ok r = (200 \<le> status_r r \<and> status_r r \<le> 299)"

text \<open>
  \<open>request\<close> returns the parsed body under the type its caller names; nothing checks
  it.  A body the hook reads is therefore either a value of the declared interface, or an
  object that lacks the array the hook maps over (\<open>trains\<close> of a snapshot,
  \<open>predicted_conflicts\<close> of a prediction), such as \<open>{}\<close>: reading that member gives
  \<open>undefined\<close>.  Other departures from the interfaces are outside the model.
\<close>

datatype 'a body = Declared 'a | Lacking

text \<open>
  The network is an effect.  Every invocation of the global \<open>fetch\<close> is appended to a
  history, with a summary of how the server answered: no answer at all, or a status and
  whether the body parses.  What the server answers is given by an oracle \<open>net\<close>.
\<close>

datatype reply = NetworkFailure | Reply nat bool

type_synonym history = "(fetch_call \<times> reply) list"

definition summary :: "exn + 'a response \<Rightarrow> reply" where
  "summary r = (case r of Inl e \<Rightarrow> NetworkFailure | Inr resp \<Rightarrow> Reply (status_r resp) (case json resp of Inl e \<Rightarrow> False | Inr v \<Rightarrow> True))"

definition fetch_js :: "(fetch_call \<Rightarrow> exn + 'a response) \<Rightarrow> fetch_call \<Rightarrow> history \<Rightarrow> (exn + 'a response) \<times> history" where
  "fetch_js net call h = (net call, h @ [(call, summary (net call))])"

text \<open>
  The second argument of \<open>fetch\<close> in \<open>request\<close>: the merged headers, overridden by
  every member that \<open>options\<close> has (so by its headers, when it has some).
\<close>

definition request_init :: "RequestInit \<Rightarrow> RequestInit" where
  "request_init options =
     \<lparr> http_method = http_method options,
       headers = Some (case headers options of
                         None \<Rightarrow> [(''Content-Type'', ''application/json'')]
                       | Some hs \<Rightarrow> hs),
       body = body options \<rparr>"

definition request ::
  "string \<Rightarrow> (fetch_call \<Rightarrow> exn + 'a response) \<Rightarrow> string \<Rightarrow> RequestInit \<Rightarrow> history \<Rightarrow> (exn + 'a) \<times> history" where
  "request baseUrl net endpoint options h =
     (case fetch_js net \<lparr> url = baseUrl @ endpoint, init = request_init options \<rparr> h of
        (Inl e, h') \<Rightarrow> (Inl e, h')
      | (Inr response, h') \<Rightarrow>
          if \<not> ok response
          then (Inl (JsError ErrorC
                  (''API request failed: '' @ show_nat (status_r response) @ '' '' @ statusText response)), h')
          else (json response, h'))"

definition no_options :: RequestInit where
  "no_options = \<lparr> http_method = None, headers = None, body = None \<rparr>"

definition post :: "payload option \<Rightarrow> RequestInit" where
  "post b = \<lparr> http_method = Some ''POST'', headers = None, body = b \<rparr>"

definition getDemo :: "(fetch_call \<Rightarrow> exn + 'a response) \<Rightarrow> history \<Rightarrow> (exn + 'a) \<times> history" where
  "getDemo net h = request API_BASE_URL net ''/demo'' no_options h"

definition getLiveSnapshot ::
  "(fetch_call \<Rightarrow> exn + BackendState body response) \<Rightarrow> bool \<Rightarrow> nat \<Rightarrow> BackendState option \<Rightarrow> history
     \<Rightarrow> (exn + BackendState body) \<times> history" where
  "getLiveSnapshot net useLive maxTrains state h =
     request API_BASE_URL net
       (''/live/snapshot?use_live='' @ show_bool useLive @ ''&max_trains='' @ show_nat maxTrains)
       (post (case state of None \<Rightarrow> None | Some st \<Rightarrow> Some (StateBody st))) h"

definition predictConflicts ::
  "(fetch_call \<Rightarrow> exn + PredictionResponse body response) \<Rightarrow> BackendState \<Rightarrow> history
     \<Rightarrow> (exn + PredictionResponse body) \<times> history" where
  "predictConflicts net state h =
     request API_BASE_URL net ''/predict'' (post (Some (StateBody state))) h"

definition optimizeSchedule_api ::
  "(fetch_call \<Rightarrow> exn + ScheduleResponse response) \<Rightarrow> BackendState \<Rightarrow> nat \<Rightarrow> history
     \<Rightarrow> (exn + ScheduleResponse) \<times> history" where
  "optimizeSchedule_api net state otpTolerance h =
     request API_BASE_URL net (''/schedule?otp_tolerance='' @ show_nat otpTolerance)
       (post (Some (StateBody state))) h"

definition resolveConflicts_api ::
  "(fetch_call \<Rightarrow> exn + ScheduleResponse response) \<Rightarrow> BackendState \<Rightarrow> PredictedConflict list option
     \<Rightarrow> string \<Rightarrow> nat \<Rightarrow> history \<Rightarrow> (exn + ScheduleResponse) \<times> history" where
  "resolveConflicts_api net state predictedConflicts solver otpTolerance h =
     request API_BASE_URL net
       (''/resolve?solver='' @ solver @ ''&otp_tolerance='' @ show_nat otpTolerance)
       (post (Some (ResolveBody state predictedConflicts))) h"

definition whatIfAnalysis ::
  "(fetch_call \<Rightarrow> exn + ScheduleResponse response) \<Rightarrow> BackendState \<Rightarrow> nat \<Rightarrow> history
     \<Rightarrow> (exn + ScheduleResponse) \<times> history" where
  "whatIfAnalysis net state otpTolerance h =
     request API_BASE_URL net (''/whatif?otp_tolerance='' @ show_nat otpTolerance)
       (post (Some (StateBody state))) h"

definition getKPIs ::
  "(fetch_call \<Rightarrow> exn + 'a response) \<Rightarrow> BackendState \<Rightarrow> nat \<Rightarrow> history \<Rightarrow> (exn + 'a) \<times> history" where
  "getKPIs net state otpTolerance h =
     request API_BASE_URL net (''/kpis?otp_tolerance='' @ show_nat otpTolerance)
       (post (Some (StateBody state))) h"

section \<open>The polling hook (hooks/useRealTimeData)\<close>

record FrontendConflict =
  id_fc :: string
  trains_fc :: "string list"
  location :: string
  severity :: string
  timeToConflict :: int
  aiResolution :: string

text \<open>\<open>Array.prototype.join\<close> on an array of strings.\<close>

fun join :: "string \<Rightarrow> string list \<Rightarrow> string" where
  "join sep [] = []"
| "join sep [x] = x"
| "join sep (x # y # ys) = x @ sep @ join sep (y # ys)"

text \<open>The conflict mapping of \<open>fetchLiveData\<close>: its callback, and the mapped list.\<close>

definition frontendConflict :: "nat \<Rightarrow> PredictedConflict \<Rightarrow> FrontendConflict" where
  "frontendConflict index conflict =
     \<lparr> id_fc = ''conflict-'' @ show_nat index,
       trains_fc = train_ids conflict,
       location = section_id conflict,
       severity = ''medium'',
       timeToConflict = predicted_conflict_time conflict,
       aiResolution =
         ''Reroute '' @ join '', '' (train_ids conflict) @ '' through alternative sections'' \<rparr>"

definition frontendConflicts :: "PredictedConflict list \<Rightarrow> FrontendConflict list" where
  "frontendConflicts predicted =
     map (\<lambda>(index, conflict). frontendConflict index conflict) (enumerate 0 predicted)"

text \<open>
  The state variables of the hook, and the history of the requests it has issued.
\<close>

record hook_state =
  trains :: "FrontendTrain list"
  conflicts :: "FrontendConflict list"
  isConnected :: bool
  lastUpdate :: int
  loading :: bool
  error :: "string option"
  sent :: history

definition initial :: "int \<Rightarrow> hook_state" where
  "initial t0 =
     \<lparr> trains = [], conflicts = [], isConnected = False, lastUpdate = t0,
       loading = False, error = None, sent = [] \<rparr>"

text \<open>
  What the world does during one operation of the hook: the server's answer to a
  request, given how many requests were issued before it, and the clock readings
  (\<open>Date.now()\<close> in the callback for index \<open>i\<close> of either transform, and \<open>new Date()\<close>
  when a fetch completes).
\<close>

record env =
  net_state :: "nat \<Rightarrow> fetch_call \<Rightarrow> exn + BackendState body response"
  net_prediction :: "nat \<Rightarrow> fetch_call \<Rightarrow> exn + PredictionResponse body response"
  net_schedule :: "nat \<Rightarrow> fetch_call \<Rightarrow> exn + ScheduleResponse response"
  now_bf :: "nat \<Rightarrow> int"
  now_fb :: "nat \<Rightarrow> int"
  now_date :: int

text \<open>\<open>err instanceof Error ? err.message : fallback\<close>\<close>

definition error_message :: "exn \<Rightarrow> string \<Rightarrow> string" where
  "error_message err fallback = (case err of JsError c m \<Rightarrow> m | Thrown \<Rightarrow> fallback)"

text \<open>The \<open>catch\<close> block of \<open>fetchLiveData\<close>, and its \<open>finally\<close> block.\<close>

definition fetch_catch :: "exn \<Rightarrow> hook_state \<Rightarrow> hook_state" where
  "fetch_catch err s =
     s\<lparr> error := Some (error_message err ''Failed to connect to backend''),
        isConnected := False \<rparr>"

definition fetch_finally :: "hook_state \<Rightarrow> hook_state" where
  "fetch_finally s = s\<lparr> loading := False \<rparr>"

text \<open>
  Calling \<open>map\<close> on the \<open>undefined\<close> that a lacking body gives for its array throws a
  \<open>TypeError\<close>.
\<close>

definition undefined_map :: exn where
  "undefined_map = JsError TypeErrorC ''Cannot read properties of undefined''"

text \<open>
  \<open>fetchLiveData\<close> suspends at each \<open>await\<close>.  The trace lists the state when the first
  request goes out, the state when the second one goes out (if the operation gets
  there), and the state when the operation completes.  Whatever is thrown inside the
  \<open>try\<close> block, by a call or by a transform, ends in the \<open>catch\<close> block.
\<close>

definition fetchLiveData_trace :: "env \<Rightarrow> bool \<Rightarrow> hook_state \<Rightarrow> hook_state list" where
  "fetchLiveData_trace env useLive s =
     (let s1 = s\<lparr> loading := True, error := None \<rparr> in
      s1 #
      (case getLiveSnapshot (net_state env (length (sent s1))) useLive 50 None (sent s1) of
         (Inl err, h1) \<Rightarrow> [fetch_finally (fetch_catch err (s1\<lparr> sent := h1 \<rparr>))]
       | (Inr received, h1) \<Rightarrow>
           (case received of
              Lacking \<Rightarrow> [fetch_finally (fetch_catch undefined_map (s1\<lparr> sent := h1 \<rparr>))]
            | Declared backendState \<Rightarrow>
           (case transformBackendToFrontend (now_bf env) backendState of
              Inl err \<Rightarrow> [fetch_finally (fetch_catch err (s1\<lparr> sent := h1 \<rparr>))]
            | Inr fs \<Rightarrow>
                (let s2 = s1\<lparr> sent := h1, trains := trains_fs fs \<rparr> in
                 s2 #
                 (case predictConflicts (net_prediction env (length (sent s2))) backendState (sent s2) of
                    (Inl err, h2) \<Rightarrow> [fetch_finally (fetch_catch err (s2\<lparr> sent := h2 \<rparr>))]
                  | (Inr received2, h2) \<Rightarrow>
                      (case received2 of
                         Lacking \<Rightarrow> [fetch_finally (fetch_catch undefined_map (s2\<lparr> sent := h2 \<rparr>))]
                       | Declared predictions \<Rightarrow>
                      [fetch_finally
                         (s2\<lparr> sent := h2,
                              conflicts := frontendConflicts (predicted_conflicts predictions),
                              isConnected := True,
                              lastUpdate := now_date env \<rparr>)])))))))"

definition fetchLiveData :: "env \<Rightarrow> bool \<Rightarrow> hook_state \<Rightarrow> hook_state" where
  "fetchLiveData env useLive s = last (fetchLiveData_trace env useLive s)"

definition optimizeSchedule :: "env \<Rightarrow> hook_state \<Rightarrow> hook_state" where
  "optimizeSchedule env s =
     (let s1 = s\<lparr> loading := True \<rparr>;
          backendState = transformFrontendToBackend (now_fb env) (trains s1) in
      case optimizeSchedule_api (net_schedule env (length (sent s1))) backendState 300 (sent s1) of
        (Inl err, h1) \<Rightarrow>
          s1\<lparr> sent := h1, error := Some (error_message err ''Failed to optimize schedule''),
              loading := False \<rparr>
      | (Inr result, h1) \<Rightarrow> s1\<lparr> sent := h1, loading := False \<rparr>)"

definition resolveConflicts :: "env \<Rightarrow> hook_state \<Rightarrow> hook_state" where
  "resolveConflicts env s =
     (let s1 = s\<lparr> loading := True \<rparr>;
          backendState = transformFrontendToBackend (now_fb env) (trains s1) in
      case predictConflicts (net_prediction env (length (sent s1))) backendState (sent s1) of
        (Inl err, h1) \<Rightarrow>
          s1\<lparr> sent := h1, error := Some (error_message err ''Failed to resolve conflicts''),
              loading := False \<rparr>
      | (Inr predictions, h1) \<Rightarrow>
          (case resolveConflicts_api (net_schedule env (length h1)) backendState
                  (case predictions of
                     Lacking \<Rightarrow> None
                   | Declared p \<Rightarrow> Some (predicted_conflicts p)) ''milp'' 300 h1 of
             (Inl err, h2) \<Rightarrow>
               s1\<lparr> sent := h2, error := Some (error_message err ''Failed to resolve conflicts''),
                   loading := False \<rparr>
           | (Inr result, h2) \<Rightarrow>
               (fetchLiveData env False (s1\<lparr> sent := h2 \<rparr>))\<lparr> loading := False \<rparr>))"

text \<open>
  The callback of \<open>prev.map\<close> in \<open>handleTrainAction\<close>, the optimistic update it makes to
  the train list, and the whole operation: the update, then a full refetch.
\<close>

definition applyAction :: "string \<Rightarrow> string \<Rightarrow> FrontendTrain \<Rightarrow> FrontendTrain" where
  "applyAction trainId action train =
     (if id_ft train = trainId then
        (if action = ''hold'' then train\<lparr> status := ''held'' \<rparr>
         else if action = ''expedite'' then
           train\<lparr> status := ''expedited'', delay := max 0 (delay train - 5) \<rparr>
         else if action = ''reroute'' then train\<lparr> status := ''rerouting'' \<rparr>
         else train)
      else train)"

definition optimisticUpdate :: "string \<Rightarrow> string \<Rightarrow> FrontendTrain list \<Rightarrow> FrontendTrain list" where
  "optimisticUpdate trainId action prev = map (applyAction trainId action) prev"

definition handleTrainAction_trace :: "env \<Rightarrow> string \<Rightarrow> string \<Rightarrow> hook_state \<Rightarrow> hook_state list" where
  "handleTrainAction_trace env trainId action s =
     (let s1 = s\<lparr> loading := True, trains := optimisticUpdate trainId action (trains s) \<rparr>;
          tr = fetchLiveData_trace env False s1 in
      s1 # tr @ [(last tr)\<lparr> loading := False \<rparr>])"

definition handleTrainAction :: "env \<Rightarrow> string \<Rightarrow> string \<Rightarrow> hook_state \<Rightarrow> hook_state" where
  "handleTrainAction env trainId action s = last (handleTrainAction_trace env trainId action s)"

text \<open>
  The callback of the auto-refresh interval (\<open>setInterval\<close> with a period of 30000
  milliseconds): one invocation of it is one timer tick.
\<close>

definition timerTick :: "env \<Rightarrow> hook_state \<Rightarrow> hook_state" where
  "timerTick env s = (if isConnected s then fetchLiveData env False s else s)"

text \<open>
  The step relation of the hook: one event (a manual fetch, a timer tick, or one of the
  three operator actions) runs to completion in some environment.  Every promise
  settles, and the operations of two events do not interleave.
\<close>

datatype event = Fetch bool | Tick | Optimize | Resolve | TrainAction string string

fun step :: "env \<Rightarrow> event \<Rightarrow> hook_state \<Rightarrow> hook_state" where
  "step env (Fetch useLive) s = fetchLiveData env useLive s"
| "step env Tick s = timerTick env s"
| "step env Optimize s = optimizeSchedule env s"
| "step env Resolve s = resolveConflicts env s"
| "step env (TrainAction trainId action) s = handleTrainAction env trainId action s"

inductive reachable :: "hook_state \<Rightarrow> bool" where
  reachable_initial: "reachable (initial t0)"
| reachable_step: "reachable s \<Longrightarrow> reachable (step env ev s)"

text \<open>Whether a request in the history was answered with a 2xx status and a body that parses.\<close>

definition call_ok :: "fetch_call \<times> reply \<Rightarrow> bool" where
  "call_ok c = (case snd c of NetworkFailure \<Rightarrow> False | Reply st parsed \<Rightarrow> 200 \<le> st \<and> st \<le> 299 \<and> parsed)"

definition calls_during :: "hook_state \<Rightarrow> hook_state \<Rightarrow> history" where
  "calls_during s s' = drop (length (sent s)) (sent s')"





text \<open>
  The time value of the \<open>Date\<close> that the transform builds for a train, and whether all
  the dates of a snapshot are valid, so that \<open>toISOString\<close> does not throw.
\<close>

definition time_value :: "int \<Rightarrow> BackendTrain \<Rightarrow> int" where
  "time_value now train = now + (case due_time train of None \<Rightarrow> 0 | Some d \<Rightarrow> d) * 1000"

definition valid_dates :: "(nat \<Rightarrow> int) \<Rightarrow> BackendState \<Rightarrow> bool" where
  "valid_dates clock s =
     list_all (\<lambda>(i, train). \<bar>time_value (clock i) train\<bar> \<le> max_time_value)
       (enumerate 0 (trains_bs s))"

section \<open>Example inputs\<close>

text \<open>The example train of the specification, and the display record it is projected to.\<close>

definition example_train :: BackendTrain where
  "example_train =
     \<lparr> id_bt = ''T1'', priority = 2, planned_departure = 60, route_sections = [''S1'', ''S2''],
       due_time = None, current_delay_minutes = Some 7 \<rparr>"

definition example_snapshot :: BackendState where
  "example_snapshot = \<lparr> trains_bs = [example_train], sections_bs = [] \<rparr>"

definition example_projection :: FrontendTrain where
  "example_projection =
     \<lparr> id_ft = ''T1'', name = ''Train T1'', status = ''delayed'', currentLocation = ''S1'',
       delay = 7, nextStation = ''S2'', eta = 1000 \<rparr>"

definition example_due_train :: BackendTrain where
  "example_due_train =
     \<lparr> id_bt = ''T2'', priority = 1, planned_departure = 0, route_sections = [''S3''],
       due_time = Some 90, current_delay_minutes = None \<rparr>"

definition example_lost_train :: BackendTrain where
  "example_lost_train =
     \<lparr> id_bt = ''T3'', priority = 1, planned_departure = 0, route_sections = [],
       due_time = Some 0, current_delay_minutes = Some 0 \<rparr>"

definition example_conflict :: PredictedConflict where
  "example_conflict =
     \<lparr> train_ids = [''T1'', ''T2''], section_id = ''S2'', predicted_conflict_time = 12 \<rparr>"

definition example_unavailable :: "fetch_call \<Rightarrow> exn + BackendState response" where
  "example_unavailable call =
     Inr \<lparr> status_r = 503, statusText = ''Service Unavailable'',
           json = Inl (JsError SyntaxErrorC ''Unexpected end of JSON input'') \<rparr>"

definition example_serving :: "fetch_call \<Rightarrow> exn + BackendState response" where
  "example_serving call =
     Inr \<lparr> status_r = 200, statusText = ''OK'', json = Inr example_snapshot \<rparr>"

definition example_now :: int where
  "example_now = 1790000000000"

definition example_bare_train :: BackendTrain where
  "example_bare_train =
     \<lparr> id_bt = ''T4'', priority = 1, planned_departure = 0, route_sections = [''S1'', ''S2'', ''S3''],
       due_time = None, current_delay_minutes = None \<rparr>"

definition example_mixed :: BackendState where
  "example_mixed =
     \<lparr> trains_bs = [example_train, example_due_train, example_lost_train, example_bare_train],
       sections_bs = [] \<rparr>"

definition example_snapshot_reply :: "fetch_call \<Rightarrow> exn + BackendState body response" where
  "example_snapshot_reply call =
     Inr \<lparr> status_r = 200, statusText = ''OK'', json = Inr (Declared example_snapshot) \<rparr>"

definition example_snapshot_down :: "fetch_call \<Rightarrow> exn + BackendState body response" where
  "example_snapshot_down call =
     Inr \<lparr> status_r = 503, statusText = ''Service Unavailable'',
           json = Inl (JsError SyntaxErrorC ''Unexpected end of JSON input'') \<rparr>"

definition example_predictions :: PredictionResponse where
  "example_predictions = \<lparr> predicted_delay_minutes = [], predicted_conflicts = [example_conflict] \<rparr>"

definition example_prediction :: "fetch_call \<Rightarrow> exn + PredictionResponse body response" where
  "example_prediction call =
     Inr \<lparr> status_r = 200, statusText = ''OK'', json = Inr (Declared example_predictions) \<rparr>"

definition example_prediction_lacking :: "fetch_call \<Rightarrow> exn + PredictionResponse body response" where
  "example_prediction_lacking call =
     Inr \<lparr> status_r = 200, statusText = ''OK'', json = Inr Lacking \<rparr>"

definition example_prediction_down :: "fetch_call \<Rightarrow> exn + PredictionResponse body response" where
  "example_prediction_down call = Inl (JsError TypeErrorC ''Failed to fetch'')"

definition example_env :: env where
  "example_env =
     \<lparr> net_state = (\<lambda>n. example_snapshot_reply),
       net_prediction = (\<lambda>n. example_prediction),
       net_schedule = (\<lambda>n call. Inl (JsError TypeErrorC ''Failed to fetch'')),
       now_bf = (\<lambda>i. example_now), now_fb = (\<lambda>i. example_now), now_date = example_now + 40 \<rparr>"

definition example_down_env :: env where
  "example_down_env = example_env\<lparr> net_state := (\<lambda>n. example_snapshot_down) \<rparr>"

definition example_half_env :: env where
  "example_half_env = example_env\<lparr> net_prediction := (\<lambda>n. example_prediction_down) \<rparr>"

definition example_lacking_env :: env where
  "example_lacking_env = example_env\<lparr> net_prediction := (\<lambda>n. example_prediction_lacking) \<rparr>"

definition example_overdue :: BackendState where
  "example_overdue =
     \<lparr> trains_bs = [example_train\<lparr> due_time := Some 10000000000000 \<rparr>], sections_bs = [] \<rparr>"

definition example_overdue_env :: env where
  "example_overdue_env =
     example_env\<lparr> net_state := (\<lambda>n call.
        Inr \<lparr> status_r = 200, statusText = ''OK'', json = Inr (Declared example_overdue) \<rparr>) \<rparr>"

definition example_short_delay :: FrontendTrain where
  "example_short_delay =
     \<lparr> id_ft = ''T2'', name = ''Train T2'', status = ''delayed'', currentLocation = ''S2'',
       delay = 3, nextStation = ''S3'', eta = 5000 \<rparr>"

definition example_hook :: hook_state where
  "example_hook = (initial 0)\<lparr> trains := [example_projection, example_short_delay] \<rparr>"

section \<open>Properties of the backend to display transform\<close>

lemma transformTrains_nth:
  "transformTrains clock i ts = Inr us \<Longrightarrow>
     length us = length ts \<and>
     (\<forall>k < length ts. transformTrain (clock (i + k)) (ts ! k) = Inr (us ! k))"
proof (induction ts arbitrary: i us)
  case Nil
  then show ?case by simp
next
  case (Cons t ts)
  from Cons.prems obtain u us' where
    u: "transformTrain (clock i) t = Inr u" and
    us': "transformTrains clock (Suc i) ts = Inr us'" and
    eq: "us = u # us'"
    by (auto split: sum.splits)
  from Cons.IH [OF us'] have
    len: "length us' = length ts" and
    nth: "\<forall>k < length ts. transformTrain (clock (Suc i + k)) (ts ! k) = Inr (us' ! k)"
    by simp_all
  show ?case
  proof (intro conjI allI impI)
    show "length us = length (t # ts)" using len eq by simp
  next
    fix k assume "k < length (t # ts)"
    then show "transformTrain (clock (i + k)) ((t # ts) ! k) = Inr (us ! k)"
      using u nth eq by (cases k) simp_all
  qed
qed

lemma transformBackendToFrontend_nth:
  assumes "transformBackendToFrontend clock s = Inr f"
  shows "length (trains_fs f) = length (trains_bs s)"
    and "i < length (trains_bs s) \<Longrightarrow>
           transformTrain (clock i) (trains_bs s ! i) = Inr (trains_fs f ! i)"
    and "sections_fs f = sections_bs s"
proof -
  from assms obtain us where
    us: "transformTrains clock 0 (trains_bs s) = Inr us" and
    f: "f = \<lparr> trains_fs = us, sections_fs = sections_bs s \<rparr>"
    by (auto simp: transformBackendToFrontend_def split: sum.splits)
  from transformTrains_nth [OF us] f
  show "length (trains_fs f) = length (trains_bs s)" by simp
  from transformTrains_nth [OF us] f
  show "i < length (trains_bs s) \<Longrightarrow>
          transformTrain (clock i) (trains_bs s ! i) = Inr (trains_fs f ! i)"
    by simp
  from f show "sections_fs f = sections_bs s" by simp
qed

lemma transformTrain_status:
  "transformTrain now t = Inr u \<Longrightarrow>
     status u = (if (\<exists>d. current_delay_minutes t = Some d \<and> 0 < d) then ''delayed'' else ''on-time'')"
  by (auto simp: transformTrain_def truthy_num_def split: sum.splits option.splits)

lemma or_num_lit_zero:
  "or_num_lit v 0 = (case v of None \<Rightarrow> 0 | Some d \<Rightarrow> d)"
  by (simp add: or_num_lit_def split: option.splits)

lemma transformTrain_projects:
  "(\<exists>u. transformTrain now t = Inr u) \<longleftrightarrow> \<bar>time_value now t\<bar> \<le> max_time_value"
  by (simp add: transformTrain_def toISOString_def time_value_def or_num_lit_zero)

lemma transformTrains_projects:
  "(\<exists>us. transformTrains clock i ts = Inr us) \<longleftrightarrow>
     list_all (\<lambda>(k, t). \<bar>time_value (clock k) t\<bar> \<le> max_time_value) (enumerate i ts)"
proof (induction ts arbitrary: i)
  case Nil
  show ?case by simp
next
  case (Cons t ts)
  have "(\<exists>us. transformTrains clock i (t # ts) = Inr us) \<longleftrightarrow>
        (\<exists>u. transformTrain (clock i) t = Inr u) \<and> (\<exists>us. transformTrains clock (Suc i) ts = Inr us)"
    by (auto split: sum.splits)
  then show ?case
    by (simp add: transformTrain_projects Cons.IH)
qed

lemma transformBackendToFrontend_projects:
  "(\<exists>f. transformBackendToFrontend clock s = Inr f) \<longleftrightarrow> valid_dates clock s"
proof -
  have "(\<exists>f. transformBackendToFrontend clock s = Inr f) \<longleftrightarrow>
        (\<exists>us. transformTrains clock 0 (trains_bs s) = Inr us)"
    by (auto simp: transformBackendToFrontend_def split: sum.splits)
  then show ?thesis
    by (simp add: transformTrains_projects valid_dates_def)
qed

text \<open>
  C1.  For every snapshot whose dates are valid, the transform returns a projection with
  one display train per backend train, and the status of each is \<open>delayed\<close> when
  \<open>current_delay_minutes\<close> is present and greater than zero, and \<open>on-time\<close> otherwise;
  so the status is one of these two, and never \<open>conflict\<close>.
\<close>

theorem transformBackendToFrontend_status:
  assumes "valid_dates clock s"
  shows "\<exists>f. transformBackendToFrontend clock s = Inr f
           \<and> length (trains_fs f) = length (trains_bs s)
           \<and> (\<forall>i < length (trains_bs s).
                 status (trains_fs f ! i) =
                   (if (\<exists>d. current_delay_minutes (trains_bs s ! i) = Some d \<and> 0 < d)
                    then ''delayed'' else ''on-time'')
                 \<and> status (trains_fs f ! i) \<in> {''on-time'', ''delayed''}
                 \<and> status (trains_fs f ! i) \<noteq> ''conflict'')"
proof -
  from assms obtain f where f: "transformBackendToFrontend clock s = Inr f"
    using transformBackendToFrontend_projects by blast
  have "\<forall>i < length (trains_bs s).
          status (trains_fs f ! i) =
            (if (\<exists>d. current_delay_minutes (trains_bs s ! i) = Some d \<and> 0 < d)
             then ''delayed'' else ''on-time'')"
    using transformBackendToFrontend_nth(2) [OF f] transformTrain_status by blast
  with f transformBackendToFrontend_nth(1) [OF f] show ?thesis
    by (intro exI [of _ f]) simp
qed

lemma example_mixed_valid:
  "valid_dates (\<lambda>i. example_now) example_mixed"
  "valid_dates (\<lambda>i. example_now + 30000) example_mixed"
  by (simp_all add: valid_dates_def time_value_def max_time_value_def example_now_def
      example_mixed_def example_train_def example_due_train_def example_lost_train_def
      example_bare_train_def)

lemma example_mixed_trains:
  "length (trains_bs example_mixed) = 4"
  "trains_bs example_mixed ! 0 = example_train"
  "trains_bs example_mixed ! 1 = example_due_train"
  "trains_bs example_mixed ! Suc 0 = example_due_train"
  "trains_bs example_mixed ! 2 = example_lost_train"
  "trains_bs example_mixed ! 3 = example_bare_train"
  by (simp_all add: example_mixed_def)

theorem transformBackendToFrontend_status_witness:
  "valid_dates (\<lambda>i. example_now) example_mixed
   \<and> current_delay_minutes example_train = Some 7
   \<and> current_delay_minutes example_lost_train = Some 0
   \<and> current_delay_minutes example_bare_train = None
   \<and> (\<exists>f. transformBackendToFrontend (\<lambda>i. example_now) example_mixed = Inr f
          \<and> length (trains_fs f) = 4
          \<and> status (trains_fs f ! 0) = ''delayed''
          \<and> status (trains_fs f ! 2) = ''on-time''
          \<and> status (trains_fs f ! 3) = ''on-time'')"
proof -
  from transformBackendToFrontend_status [OF example_mixed_valid(1)]
  obtain f where f: "transformBackendToFrontend (\<lambda>i. example_now) example_mixed = Inr f"
    and len: "length (trains_fs f) = length (trains_bs example_mixed)"
    and st: "\<And>i. i < length (trains_bs example_mixed) \<Longrightarrow>
          status (trains_fs f ! i) =
            (if (\<exists>d. current_delay_minutes (trains_bs example_mixed ! i) = Some d \<and> 0 < d)
             then ''delayed'' else ''on-time'')"
    by blast
  have d: "current_delay_minutes example_train = Some 7"
    "current_delay_minutes example_lost_train = Some 0"
    "current_delay_minutes example_bare_train = None"
    by (simp_all add: example_train_def example_lost_train_def example_bare_train_def)
  from st [of 0] d have s0: "status (trains_fs f ! 0) = ''delayed''"
    by (simp add: example_mixed_trains)
  from st [of 2] d have s2: "status (trains_fs f ! 2) = ''on-time''"
    by (simp add: example_mixed_trains)
  from st [of 3] d have s3: "status (trains_fs f ! 3) = ''on-time''"
    by (simp add: example_mixed_trains)
  from f len s0 s2 s3 d example_mixed_valid(1) show ?thesis
    by (auto simp: example_mixed_trains)
qed

lemma transformTrain_eta:
  "transformTrain now t = Inr u \<Longrightarrow>
     eta u = now + (case due_time t of None \<Rightarrow> 0 | Some d \<Rightarrow> d) * 1000"
  by (auto simp: transformTrain_def toISOString_def or_num_lit_def
      split: sum.splits option.splits if_splits)

text \<open>
  C8.  For every snapshot whose dates are valid, the transform returns a projection in
  which the \<open>eta\<close> of every train is the clock reading taken when the train is
  transformed plus \<open>due_time\<close> seconds (zero when \<open>due_time\<close> is absent); so two
  transforms of the same snapshot whose clock readings differ produce different \<open>eta\<close>
  values for the same train.  Time values are in milliseconds.
\<close>

theorem transformBackendToFrontend_eta:
  assumes "valid_dates clock s"
      and "valid_dates clock' s"
  shows "\<exists>f f'. transformBackendToFrontend clock s = Inr f
           \<and> transformBackendToFrontend clock' s = Inr f'
           \<and> length (trains_fs f) = length (trains_bs s)
           \<and> length (trains_fs f') = length (trains_bs s)
           \<and> (\<forall>i < length (trains_bs s).
                 eta (trains_fs f ! i) =
                   clock i + (case due_time (trains_bs s ! i) of None \<Rightarrow> 0 | Some d \<Rightarrow> d) * 1000
                 \<and> eta (trains_fs f' ! i) =
                   clock' i + (case due_time (trains_bs s ! i) of None \<Rightarrow> 0 | Some d \<Rightarrow> d) * 1000
                 \<and> (clock i \<noteq> clock' i \<longrightarrow> eta (trains_fs f ! i) \<noteq> eta (trains_fs f' ! i)))"
proof -
  from assms obtain f f' where
    f: "transformBackendToFrontend clock s = Inr f" and
    f': "transformBackendToFrontend clock' s = Inr f'"
    using transformBackendToFrontend_projects by blast
  have a: "\<forall>i < length (trains_bs s). eta (trains_fs f ! i) =
      clock i + (case due_time (trains_bs s ! i) of None \<Rightarrow> 0 | Some d \<Rightarrow> d) * 1000"
    using transformBackendToFrontend_nth(2) [OF f] transformTrain_eta by blast
  have b: "\<forall>i < length (trains_bs s). eta (trains_fs f' ! i) =
      clock' i + (case due_time (trains_bs s ! i) of None \<Rightarrow> 0 | Some d \<Rightarrow> d) * 1000"
    using transformBackendToFrontend_nth(2) [OF f'] transformTrain_eta by blast
  from a b have "\<forall>i < length (trains_bs s).
      eta (trains_fs f ! i) =
        clock i + (case due_time (trains_bs s ! i) of None \<Rightarrow> 0 | Some d \<Rightarrow> d) * 1000
      \<and> eta (trains_fs f' ! i) =
        clock' i + (case due_time (trains_bs s ! i) of None \<Rightarrow> 0 | Some d \<Rightarrow> d) * 1000
      \<and> (clock i \<noteq> clock' i \<longrightarrow> eta (trains_fs f ! i) \<noteq> eta (trains_fs f' ! i))"
    by simp
  with f f' transformBackendToFrontend_nth(1) [OF f] transformBackendToFrontend_nth(1) [OF f']
  show ?thesis by blast
qed

theorem transformBackendToFrontend_eta_witness:
  "valid_dates (\<lambda>i. example_now) example_mixed
   \<and> valid_dates (\<lambda>i. example_now + 30000) example_mixed
   \<and> due_time example_due_train = Some 90
   \<and> due_time example_bare_train = None
   \<and> (\<exists>f f'. transformBackendToFrontend (\<lambda>i. example_now) example_mixed = Inr f
          \<and> transformBackendToFrontend (\<lambda>i. example_now + 30000) example_mixed = Inr f'
          \<and> eta (trains_fs f ! 1) = example_now + 90000
          \<and> eta (trains_fs f' ! 1) = example_now + 120000
          \<and> eta (trains_fs f ! 3) = example_now
          \<and> eta (trains_fs f' ! 3) = example_now + 30000
          \<and> eta (trains_fs f ! 1) \<noteq> eta (trains_fs f' ! 1)
          \<and> eta (trains_fs f ! 3) \<noteq> eta (trains_fs f' ! 3))"
proof -
  from transformBackendToFrontend_eta [OF example_mixed_valid]
  obtain f f' where
    f: "transformBackendToFrontend (\<lambda>i. example_now) example_mixed = Inr f" and
    f': "transformBackendToFrontend (\<lambda>i. example_now + 30000) example_mixed = Inr f'" and
    e: "\<And>i. i < length (trains_bs example_mixed) \<Longrightarrow>
          eta (trains_fs f ! i) =
            example_now + (case due_time (trains_bs example_mixed ! i) of None \<Rightarrow> 0 | Some d \<Rightarrow> d) * 1000
          \<and> eta (trains_fs f' ! i) =
            example_now + 30000 + (case due_time (trains_bs example_mixed ! i) of None \<Rightarrow> 0 | Some d \<Rightarrow> d) * 1000"
    by blast
  have d: "due_time example_due_train = Some 90" "due_time example_bare_train = None"
    by (simp_all add: example_due_train_def example_bare_train_def)
  from e [of 1] d have e1: "eta (trains_fs f ! 1) = example_now + 90000"
    "eta (trains_fs f' ! 1) = example_now + 120000"
    by (simp_all add: example_mixed_trains)
  from e [of 3] d have e3: "eta (trains_fs f ! 3) = example_now"
    "eta (trains_fs f' ! 3) = example_now + 30000"
    by (simp_all add: example_mixed_trains)
  from f f' e1 e3 d example_mixed_valid show ?thesis
    by (intro conjI exI [of _ f] exI [of _ f']) simp_all
qed

lemma transformTrain_locations:
  assumes "transformTrain now t = Inr u"
  shows "route_sections t = [] \<Longrightarrow> currentLocation u = ''Unknown'' \<and> nextStation u = ''Terminal''"
    and "route_sections t = [x] \<Longrightarrow> x \<noteq> [] \<Longrightarrow> currentLocation u = x \<and> nextStation u = x"
  using assms
  by (auto simp: transformTrain_def or_str_lit_def or_str_def truthy_str_def at_index_def
      split: sum.splits)

text \<open>
  C9.  For every snapshot whose dates are valid, the transform returns a projection in
  which a train with an empty \<open>route_sections\<close> is shown at \<open>Unknown\<close> with next station
  \<open>Terminal\<close>, and a train whose \<open>route_sections\<close> holds exactly one non-empty section
  is shown at that section, which is also its next station.
\<close>

theorem transformBackendToFrontend_short_routes:
  assumes "valid_dates clock s"
  shows "\<exists>f. transformBackendToFrontend clock s = Inr f
           \<and> length (trains_fs f) = length (trains_bs s)
           \<and> (\<forall>i < length (trains_bs s).
                 (route_sections (trains_bs s ! i) = [] \<longrightarrow>
                    currentLocation (trains_fs f ! i) = ''Unknown'' \<and>
                    nextStation (trains_fs f ! i) = ''Terminal'')
                 \<and> (\<forall>x. route_sections (trains_bs s ! i) = [x] \<and> x \<noteq> [] \<longrightarrow>
                    currentLocation (trains_fs f ! i) = x \<and> nextStation (trains_fs f ! i) = x))"
proof -
  from assms obtain f where f: "transformBackendToFrontend clock s = Inr f"
    using transformBackendToFrontend_projects by blast
  have "\<forall>i < length (trains_bs s).
          (route_sections (trains_bs s ! i) = [] \<longrightarrow>
             currentLocation (trains_fs f ! i) = ''Unknown'' \<and>
             nextStation (trains_fs f ! i) = ''Terminal'')
          \<and> (\<forall>x. route_sections (trains_bs s ! i) = [x] \<and> x \<noteq> [] \<longrightarrow>
             currentLocation (trains_fs f ! i) = x \<and> nextStation (trains_fs f ! i) = x)"
    using transformBackendToFrontend_nth(2) [OF f] transformTrain_locations by blast
  with f transformBackendToFrontend_nth(1) [OF f] show ?thesis by blast
qed

theorem transformBackendToFrontend_short_routes_witness:
  "valid_dates (\<lambda>i. example_now) example_mixed
   \<and> route_sections example_due_train = [''S3'']
   \<and> route_sections example_lost_train = []
   \<and> (\<exists>f. transformBackendToFrontend (\<lambda>i. example_now) example_mixed = Inr f
          \<and> currentLocation (trains_fs f ! 1) = ''S3''
          \<and> nextStation (trains_fs f ! 1) = ''S3''
          \<and> currentLocation (trains_fs f ! 2) = ''Unknown''
          \<and> nextStation (trains_fs f ! 2) = ''Terminal'')"
proof -
  from transformBackendToFrontend_short_routes [OF example_mixed_valid(1)]
  obtain f where f: "transformBackendToFrontend (\<lambda>i. example_now) example_mixed = Inr f"
    and e: "\<And>i. i < length (trains_bs example_mixed) \<Longrightarrow>
          route_sections (trains_bs example_mixed ! i) = [] \<Longrightarrow>
             currentLocation (trains_fs f ! i) = ''Unknown'' \<and>
             nextStation (trains_fs f ! i) = ''Terminal''"
    and o: "\<And>i x. i < length (trains_bs example_mixed) \<Longrightarrow>
          route_sections (trains_bs example_mixed ! i) = [x] \<Longrightarrow> x \<noteq> [] \<Longrightarrow>
             currentLocation (trains_fs f ! i) = x \<and> nextStation (trains_fs f ! i) = x"
    by blast
  have r: "route_sections example_due_train = [''S3'']" "route_sections example_lost_train = []"
    by (simp_all add: example_due_train_def example_lost_train_def)
  from o [of 1 "''S3''"] r have l1: "currentLocation (trains_fs f ! 1) = ''S3''"
    "nextStation (trains_fs f ! 1) = ''S3''"
    by (simp_all add: example_mixed_trains)
  from e [of 2] r have l2: "currentLocation (trains_fs f ! 2) = ''Unknown''"
    "nextStation (trains_fs f ! 2) = ''Terminal''"
    by (simp_all add: example_mixed_trains)
  from f l1 l2 r example_mixed_valid(1) show ?thesis
    by (intro conjI exI [of _ f]) simp_all
qed

section \<open>Properties of the display to backend transform\<close>

text \<open>
  C4.  Whatever the input train list, \<open>transformFrontendToBackend\<close> returns exactly the
  three sections \<open>S1\<close>, \<open>S2\<close>, \<open>S3\<close>, each of platform capacity 1, and one output train
  per input train, each with priority 1 and planned departure 0.
\<close>

theorem transformFrontendToBackend_constants:
  "sections_bs (transformFrontendToBackend clock ts) =
     [ \<lparr> id_sec = ''S1'', platform_capacity = Some 1, conflicts_with = None, conflict_groups = None \<rparr>,
       \<lparr> id_sec = ''S2'', platform_capacity = Some 1, conflicts_with = None, conflict_groups = None \<rparr>,
       \<lparr> id_sec = ''S3'', platform_capacity = Some 1, conflicts_with = None, conflict_groups = None \<rparr> ]
   \<and> length (trains_bs (transformFrontendToBackend clock ts)) = length ts
   \<and> map priority (trains_bs (transformFrontendToBackend clock ts)) = replicate (length ts) 1
   \<and> map planned_departure (trains_bs (transformFrontendToBackend clock ts)) = replicate (length ts) 0"
  by (simp add: transformFrontendToBackend_def hard_coded_sections_def map_replicate_const
      case_prod_unfold comp_def)

lemma transformFrontendToBackend_shape:
  assumes "transformFrontendToBackend clock ts = s"
  shows "sections_bs s = hard_coded_sections"
    and "t \<in> set (trains_bs s) \<Longrightarrow>
           priority t = 1 \<and> planned_departure t = 0 \<and> length (route_sections t) = 2"
  using assms by (auto simp: transformFrontendToBackend_def)

lemma example_transform:
  "transformBackendToFrontend (\<lambda>i. 1000) example_snapshot =
     Inr \<lparr> trains_fs = [example_projection], sections_fs = [] \<rparr>"
  by (simp add: transformBackendToFrontend_def example_snapshot_def example_train_def
      example_projection_def transformTrain_def toISOString_def max_time_value_def
      or_num_lit_def or_str_lit_def or_str_def truthy_num_def truthy_str_def at_index_def)

text \<open>
  C5.  The two transforms are not a round trip: some backend state is not reproduced by
  transforming it to the display shape and back.  In fact no state is reproduced that has
  a train of priority other than 1, of planned departure other than 0 or with more than
  two route sections, or whose sections are not the hard-coded three.
\<close>

theorem round_trip_lossy:
  "(\<exists>clock clock' s f.
       transformBackendToFrontend clock s = Inr f \<and>
       transformFrontendToBackend clock' (trains_fs f) \<noteq> s)
   \<and> (transformBackendToFrontend clock s = Inr f \<and>
       ((\<exists>t \<in> set (trains_bs s).
           priority t \<noteq> 1 \<or> planned_departure t \<noteq> 0 \<or> 2 < length (route_sections t))
        \<or> sections_bs s \<noteq> hard_coded_sections)
      \<longrightarrow> transformFrontendToBackend clock' (trains_fs f) \<noteq> s)"
proof (intro conjI impI)
  have "transformFrontendToBackend (\<lambda>i. 1000) (trains_fs \<lparr> trains_fs = [example_projection], sections_fs = [] \<rparr>)
          \<noteq> example_snapshot"
    by (simp add: transformFrontendToBackend_def example_snapshot_def example_train_def
        example_projection_def)
  with example_transform show "\<exists>clock clock' s f.
       transformBackendToFrontend clock s = Inr f \<and>
       transformFrontendToBackend clock' (trains_fs f) \<noteq> s"
    by blast
next
  assume h: "transformBackendToFrontend clock s = Inr f \<and>
       ((\<exists>t \<in> set (trains_bs s).
           priority t \<noteq> 1 \<or> planned_departure t \<noteq> 0 \<or> 2 < length (route_sections t))
        \<or> sections_bs s \<noteq> hard_coded_sections)"
  show "transformFrontendToBackend clock' (trains_fs f) \<noteq> s"
  proof
    assume eq: "transformFrontendToBackend clock' (trains_fs f) = s"
    from transformFrontendToBackend_shape [OF eq] h show False
      by fastforce
  qed
qed

theorem round_trip_lossy_witness:
  "transformBackendToFrontend (\<lambda>i. 1000) example_snapshot =
     Inr \<lparr> trains_fs = [example_projection], sections_fs = [] \<rparr>
   \<and> example_train \<in> set (trains_bs example_snapshot)
   \<and> priority example_train \<noteq> 1
   \<and> transformFrontendToBackend (\<lambda>i. 1000) [example_projection] \<noteq> example_snapshot"
proof -
  have t: "example_train \<in> set (trains_bs example_snapshot)"
    by (simp add: example_snapshot_def)
  have p: "priority example_train \<noteq> 1"
    by (simp add: example_train_def)
  from t p have "\<exists>t \<in> set (trains_bs example_snapshot).
      priority t \<noteq> 1 \<or> planned_departure t \<noteq> 0 \<or> 2 < length (route_sections t)"
    by blast
  with round_trip_lossy [of "\<lambda>i. 1000" example_snapshot
      "\<lparr> trains_fs = [example_projection], sections_fs = [] \<rparr>" "\<lambda>i. 1000"] example_transform
  have "transformFrontendToBackend (\<lambda>i. 1000) [example_projection] \<noteq> example_snapshot"
    by simp
  with example_transform t p show ?thesis by simp
qed

section \<open>Properties of the conflict mapping\<close>

lemma sublist_join:
  "x \<in> set xs \<Longrightarrow> sublist x (join sep xs)"
proof (induction sep xs rule: join.induct)
  case (1 sep)
  then show ?case by simp
next
  case (2 sep y)
  then show ?case by simp
next
  case (3 sep y z zs)
  show ?case
  proof (cases "x = y")
    case True
    then show ?thesis by simp
  next
    case False
    with "3.prems" have "x \<in> set (z # zs)" by simp
    from "3.IH" [OF this] obtain ps ss where "join sep (z # zs) = ps @ x @ ss"
      by (auto simp: sublist_def)
    then have "join sep (y # z # zs) = (y @ sep @ ps) @ x @ ss" by simp
    then show ?thesis unfolding sublist_def by blast
  qed
qed

lemma frontendConflicts_nth:
  "i < length predicted \<Longrightarrow> frontendConflicts predicted ! i = frontendConflict i (predicted ! i)"
  by (simp add: frontendConflicts_def nth_enumerate_eq)

text \<open>
  C6.  For every predicted conflict returned by the backend, the display conflict that
  the conflict mapping of \<open>fetchLiveData\<close> produces has the entry's \<open>section_id\<close> as its
  location, the entry's \<open>predicted_conflict_time\<close> as its \<open>timeToConflict\<close>, the entry's
  \<open>train_ids\<close> as its trains, and a resolution string that contains every train id of
  the entry.
\<close>

theorem frontendConflicts_fields:
  assumes "i < length predicted"
  shows "location (frontendConflicts predicted ! i) = section_id (predicted ! i)
         \<and> timeToConflict (frontendConflicts predicted ! i) = predicted_conflict_time (predicted ! i)
         \<and> trains_fc (frontendConflicts predicted ! i) = train_ids (predicted ! i)
         \<and> (\<forall>tid \<in> set (train_ids (predicted ! i)).
               sublist tid (aiResolution (frontendConflicts predicted ! i)))"
proof -
  have "\<forall>tid \<in> set (train_ids (predicted ! i)).
          sublist tid (aiResolution (frontendConflict i (predicted ! i)))"
  proof
    fix tid assume "tid \<in> set (train_ids (predicted ! i))"
    then have "sublist tid (join '', '' (train_ids (predicted ! i)))"
      by (rule sublist_join)
    then obtain ps ss where "join '', '' (train_ids (predicted ! i)) = ps @ tid @ ss"
      by (auto simp: sublist_def)
    then have "aiResolution (frontendConflict i (predicted ! i)) =
        (''Reroute '' @ ps) @ tid @ (ss @ '' through alternative sections'')"
      by (simp add: frontendConflict_def)
    then show "sublist tid (aiResolution (frontendConflict i (predicted ! i)))"
      unfolding sublist_def by blast
  qed
  then show ?thesis
    using assms by (simp add: frontendConflicts_nth frontendConflict_def)
qed

theorem frontendConflicts_fields_witness:
  "0 < length [example_conflict]
   \<and> location (frontendConflicts [example_conflict] ! 0) = ''S2''
   \<and> timeToConflict (frontendConflicts [example_conflict] ! 0) = 12
   \<and> trains_fc (frontendConflicts [example_conflict] ! 0) = [''T1'', ''T2'']
   \<and> sublist ''T1'' (aiResolution (frontendConflicts [example_conflict] ! 0))
   \<and> sublist ''T2'' (aiResolution (frontendConflicts [example_conflict] ! 0))
   \<and> aiResolution (frontendConflicts [example_conflict] ! 0) =
        ''Reroute T1, T2 through alternative sections''"
proof -
  have len: "0 < length [example_conflict]" by simp
  have r: "aiResolution (frontendConflicts [example_conflict] ! 0) =
        ''Reroute T1, T2 through alternative sections''"
    by (simp add: frontendConflicts_def frontendConflict_def example_conflict_def)
  from frontendConflicts_fields [OF len] r show ?thesis
    by (simp add: example_conflict_def)
qed

section \<open>Properties of the API client\<close>

text \<open>
  C7.  Every call of \<open>request\<close> invokes \<open>fetch\<close> exactly once.  When the response
  status is not 2xx the call throws a plain \<open>Error\<close> whose message contains the status;
  when it is 2xx the call returns what \<open>response.json()\<close> gives.
\<close>

theorem request_contract:
  fixes net :: "fetch_call \<Rightarrow> exn + 'a response"
  shows "snd (request baseUrl net endpoint options h) =
           h @ [(\<lparr> url = baseUrl @ endpoint, init = request_init options \<rparr>,
                 summary (net \<lparr> url = baseUrl @ endpoint, init = request_init options \<rparr>))]
         \<and> length (snd (request baseUrl net endpoint options h)) = length h + 1
         \<and> (\<forall>response.
               net \<lparr> url = baseUrl @ endpoint, init = request_init options \<rparr> = Inr response \<and>
               \<not> (200 \<le> status_r response \<and> status_r response \<le> 299) \<longrightarrow>
               (\<exists>msg. fst (request baseUrl net endpoint options h) = Inl (JsError ErrorC msg) \<and>
                      sublist (show_nat (status_r response)) msg))
         \<and> (\<forall>response.
               net \<lparr> url = baseUrl @ endpoint, init = request_init options \<rparr> = Inr response \<and>
               200 \<le> status_r response \<and> status_r response \<le> 299 \<longrightarrow>
               fst (request baseUrl net endpoint options h) = json response)"
proof (intro conjI allI impI)
  show h': "snd (request baseUrl net endpoint options h) =
           h @ [(\<lparr> url = baseUrl @ endpoint, init = request_init options \<rparr>,
                 summary (net \<lparr> url = baseUrl @ endpoint, init = request_init options \<rparr>))]"
    by (simp add: request_def fetch_js_def split: sum.splits)
  then show "length (snd (request baseUrl net endpoint options h)) = length h + 1"
    by simp
next
  fix response
  assume a: "net \<lparr> url = baseUrl @ endpoint, init = request_init options \<rparr> = Inr response \<and>
               \<not> (200 \<le> status_r response \<and> status_r response \<le> 299)"
  then have "fst (request baseUrl net endpoint options h) =
      Inl (JsError ErrorC (''API request failed: '' @ show_nat (status_r response) @ '' '' @ statusText response))"
    by (simp add: request_def fetch_js_def ok_def)
  moreover have "sublist (show_nat (status_r response))
      (''API request failed: '' @ show_nat (status_r response) @ '' '' @ statusText response)"
    by (rule sublist_appendI)
  ultimately show "\<exists>msg. fst (request baseUrl net endpoint options h) = Inl (JsError ErrorC msg) \<and>
                      sublist (show_nat (status_r response)) msg"
    by blast
next
  fix response
  assume "net \<lparr> url = baseUrl @ endpoint, init = request_init options \<rparr> = Inr response \<and>
               200 \<le> status_r response \<and> status_r response \<le> 299"
  then show "fst (request baseUrl net endpoint options h) = json response"
    by (simp add: request_def fetch_js_def ok_def)
qed

lemma show_nat_503: "show_nat 503 = ''503''"
  by (simp add: show_nat.simps digit_char_def)

theorem request_contract_witness:
  "fst (request API_BASE_URL example_unavailable ''/predict'' no_options []) =
     Inl (JsError ErrorC ''API request failed: 503 Service Unavailable'')
   \<and> sublist ''503'' ''API request failed: 503 Service Unavailable''
   \<and> length (snd (request API_BASE_URL example_unavailable ''/predict'' no_options [])) = 1
   \<and> fst (request API_BASE_URL example_serving ''/predict'' no_options []) = Inr example_snapshot
   \<and> length (snd (request API_BASE_URL example_serving ''/predict'' no_options [])) = 1"
proof -
  let ?call = "\<lparr> url = API_BASE_URL @ ''/predict'', init = request_init no_options \<rparr>"
  have bad: "example_unavailable ?call =
      Inr \<lparr> status_r = 503, statusText = ''Service Unavailable'',
            json = Inl (JsError SyntaxErrorC ''Unexpected end of JSON input'') \<rparr> \<and>
      \<not> (200 \<le> status_r \<lparr> status_r = 503, statusText = ''Service Unavailable'',
            json = Inl (JsError SyntaxErrorC ''Unexpected end of JSON input'') :: exn + BackendState \<rparr> \<and>
         status_r \<lparr> status_r = 503, statusText = ''Service Unavailable'',
            json = Inl (JsError SyntaxErrorC ''Unexpected end of JSON input'') :: exn + BackendState \<rparr> \<le> 299)"
    by (simp add: example_unavailable_def)
  have good: "example_serving ?call =
      Inr \<lparr> status_r = 200, statusText = ''OK'', json = Inr example_snapshot \<rparr> \<and>
      200 \<le> status_r \<lparr> status_r = 200, statusText = ''OK'', json = Inr example_snapshot :: exn + BackendState \<rparr> \<and>
      status_r \<lparr> status_r = 200, statusText = ''OK'', json = Inr example_snapshot :: exn + BackendState \<rparr> \<le> 299"
    by (simp add: example_serving_def)
  from request_contract [of API_BASE_URL example_unavailable "''/predict''" no_options "[]"] bad
  obtain msg where
    m: "fst (request API_BASE_URL example_unavailable ''/predict'' no_options []) = Inl (JsError ErrorC msg)"
    and s: "sublist (show_nat 503) msg"
    and l: "length (snd (request API_BASE_URL example_unavailable ''/predict'' no_options [])) = 1"
    by auto
  have m': "fst (request API_BASE_URL example_unavailable ''/predict'' no_options []) =
     Inl (JsError ErrorC ''API request failed: 503 Service Unavailable'')"
    by (simp add: request_def fetch_js_def ok_def example_unavailable_def show_nat_503)
  from m m' have "msg = ''API request failed: 503 Service Unavailable''" by simp
  with s have s': "sublist ''503'' ''API request failed: 503 Service Unavailable''"
    by (simp add: show_nat_503)
  from request_contract [of API_BASE_URL example_serving "''/predict''" no_options "[]"] good
  have g: "fst (request API_BASE_URL example_serving ''/predict'' no_options []) = Inr example_snapshot"
    and gl: "length (snd (request API_BASE_URL example_serving ''/predict'' no_options [])) = 1"
    by auto
  from m' s' l g gl show ?thesis by simp
qed

section \<open>Properties of the polling hook\<close>









lemmas example_defs =
  example_env_def example_down_env_def example_half_env_def example_lacking_env_def
  example_overdue_env_def example_snapshot_reply_def example_snapshot_down_def
  example_prediction_def example_prediction_lacking_def example_prediction_down_def
  initial_def

lemmas fetch_defs =
  fetchLiveData_def fetchLiveData_trace_def getLiveSnapshot_def predictConflicts_def request_def
  fetch_js_def summary_def ok_def fetch_finally_def fetch_catch_def error_message_def
  undefined_map_def calls_during_def call_ok_def Let_def

lemma example_transform_now:
  "transformBackendToFrontend (\<lambda>i. example_now) example_snapshot =
     Inr \<lparr> trains_fs = [example_projection\<lparr> eta := example_now \<rparr>], sections_fs = [] \<rparr>"
  by (simp add: transformBackendToFrontend_def example_snapshot_def example_train_def
      example_projection_def example_now_def transformTrain_def toISOString_def
      max_time_value_def or_num_lit_def or_str_lit_def or_str_def truthy_num_def truthy_str_def
      at_index_def)




lemma idle_ticks:
  "\<not> isConnected s \<Longrightarrow> fold (\<lambda>env. step env Tick) envs s = s"
  by (induction envs) (simp_all add: timerTick_def)

text \<open>
  C3.  In every reachable state of the hook, a timer tick issues requests only when
  \<open>isConnected\<close> is true, and then it runs \<open>fetchLiveData\<close>.  While \<open>isConnected\<close> is
  false a tick issues no request and leaves the state as it is, and so does any number
  of ticks in a row, whatever the environment does.
\<close>

theorem timer_gated:
  assumes "reachable s"
  shows "(\<not> isConnected s \<longrightarrow>
            step env Tick s = s \<and> calls_during s (step env Tick s) = [] \<and>
            fold (\<lambda>env. step env Tick) envs s = s)
         \<and> (calls_during s (step env Tick s) \<noteq> [] \<longrightarrow> isConnected s)
         \<and> (isConnected s \<longrightarrow> step env Tick s = fetchLiveData env False s)"
  by (simp add: timerTick_def calls_during_def idle_ticks)

lemma example_tick_up:
  "calls_during (fetchLiveData example_env False (initial 0))
     (step example_env Tick (fetchLiveData example_env False (initial 0))) \<noteq> []"
  by (simp add: timerTick_def example_defs fetch_defs example_transform_now)

theorem timer_gated_witness:
  "reachable (initial 0) \<and> \<not> isConnected (initial 0)
   \<and> step example_env Tick (initial 0) = initial 0
   \<and> fold (\<lambda>env. step env Tick) [example_env, example_down_env] (initial 0) = initial 0
   \<and> reachable (fetchLiveData example_env False (initial 0))
   \<and> calls_during (fetchLiveData example_env False (initial 0))
        (step example_env Tick (fetchLiveData example_env False (initial 0))) \<noteq> []
   \<and> isConnected (fetchLiveData example_env False (initial 0))"
proof -
  have r0: "reachable (initial 0)" by (rule reachable_initial)
  have d0: "\<not> isConnected (initial 0)" by (simp add: initial_def)
  from reachable_step [OF r0, of example_env "Fetch False"]
  have r1: "reachable (fetchLiveData example_env False (initial 0))" by simp
  from timer_gated [OF r0, of example_env "[example_env, example_down_env]"] d0
  have a: "step example_env Tick (initial 0) = initial 0 \<and>
      fold (\<lambda>env. step env Tick) [example_env, example_down_env] (initial 0) = initial 0"
    by blast
  from timer_gated [OF r1, of example_env "[]"] example_tick_up
  have b: "isConnected (fetchLiveData example_env False (initial 0))"
    by blast
  from r0 d0 r1 a b example_tick_up show ?thesis by blast
qed

lemma applyAction_frame:
  "id_ft (applyAction trainId action t) = id_ft t"
  "name (applyAction trainId action t) = name t"
  "currentLocation (applyAction trainId action t) = currentLocation t"
  "nextStation (applyAction trainId action t) = nextStation t"
  "eta (applyAction trainId action t) = eta t"
  "id_ft t \<noteq> trainId \<Longrightarrow> applyAction trainId action t = t"
  "action \<notin> {''hold'', ''expedite'', ''reroute''} \<Longrightarrow> applyAction trainId action t = t"
  "action = ''expedite'' \<Longrightarrow> id_ft t = trainId \<Longrightarrow>
     delay (applyAction trainId action t) = max 0 (delay t - 5)"
  by (simp_all add: applyAction_def)

text \<open>
  C10.  The optimistic update of \<open>handleTrainAction\<close> keeps the length of the train
  list, leaves every train with another id as it is, never changes \<open>id\<close>, \<open>name\<close>,
  \<open>currentLocation\<close>, \<open>nextStation\<close> or \<open>eta\<close>, leaves every train as it is when the
  action is none of \<open>hold\<close>, \<open>expedite\<close>, \<open>reroute\<close>, and on \<open>expedite\<close> sets the delay
  of the targeted train to \<open>max 0 (delay - 5)\<close>, which is not negative.
\<close>

theorem handleTrainAction_frame:
  assumes "prev = trains s"
      and "updated = trains (hd (handleTrainAction_trace env trainId action s))"
      and "i < length prev"
  shows "updated = optimisticUpdate trainId action prev
         \<and> length updated = length prev
         \<and> (id_ft (prev ! i) \<noteq> trainId \<longrightarrow> updated ! i = prev ! i)
         \<and> id_ft (updated ! i) = id_ft (prev ! i)
         \<and> name (updated ! i) = name (prev ! i)
         \<and> currentLocation (updated ! i) = currentLocation (prev ! i)
         \<and> nextStation (updated ! i) = nextStation (prev ! i)
         \<and> eta (updated ! i) = eta (prev ! i)
         \<and> (action \<notin> {''hold'', ''expedite'', ''reroute''} \<longrightarrow> updated ! i = prev ! i)
         \<and> (action = ''expedite'' \<and> id_ft (prev ! i) = trainId \<longrightarrow>
              delay (updated ! i) = max 0 (delay (prev ! i) - 5) \<and> 0 \<le> delay (updated ! i))"
proof -
  have u: "updated = map (applyAction trainId action) prev"
    using assms(1,2) by (simp add: handleTrainAction_trace_def optimisticUpdate_def Let_def)
  with assms(3) have n: "updated ! i = applyAction trainId action (prev ! i)" by simp
  show ?thesis
    using u applyAction_frame [where trainId = trainId and action = action and t = "prev ! i"]
    unfolding n by (simp add: optimisticUpdate_def)
qed

theorem handleTrainAction_frame_witness:
  "trains example_hook = [example_projection, example_short_delay]
   \<and> id_ft example_projection \<noteq> ''T2''
   \<and> trains (hd (handleTrainAction_trace example_env ''T2'' ''expedite'' example_hook)) ! 0 =
       example_projection
   \<and> id_ft example_short_delay = ''T2''
   \<and> delay (trains (hd (handleTrainAction_trace example_env ''T2'' ''expedite'' example_hook)) ! 1) =
       max 0 (delay example_short_delay - 5)
   \<and> delay (trains (hd (handleTrainAction_trace example_env ''T2'' ''expedite'' example_hook)) ! 1) = 0
   \<and> ''stop'' \<notin> {''hold'', ''expedite'', ''reroute''}
   \<and> trains (hd (handleTrainAction_trace example_env ''T2'' ''stop'' example_hook)) ! 1 =
       example_short_delay"
proof -
  have ts: "trains example_hook = [example_projection, example_short_delay]"
    by (simp add: example_hook_def)
  have ids: "id_ft example_projection \<noteq> ''T2''" "id_ft example_short_delay = ''T2''"
    by (simp_all add: example_projection_def example_short_delay_def)
  have act: "''stop'' \<notin> {''hold'', ''expedite'', ''reroute''}" by simp
  have l0: "0 < length (trains example_hook)" and l1: "1 < length (trains example_hook)"
    by (simp_all add: ts)
  have p0: "trains example_hook ! 0 = example_projection"
    and p1: "trains example_hook ! 1 = example_short_delay"
    by (simp_all add: ts)
  from handleTrainAction_frame [OF refl refl l0, of example_env "''T2''" "''expedite''", unfolded p0] ids
  have a: "trains (hd (handleTrainAction_trace example_env ''T2'' ''expedite'' example_hook)) ! 0 =
       example_projection"
    by blast
  from handleTrainAction_frame [OF refl refl l1, of example_env "''T2''" "''expedite''", unfolded p1] ids
  have b: "delay (trains (hd (handleTrainAction_trace example_env ''T2'' ''expedite'' example_hook)) ! 1) =
       max 0 (delay example_short_delay - 5)"
    by blast
  from handleTrainAction_frame [OF refl refl l1, of example_env "''T2''" "''stop''", unfolded p1] act
  have c: "trains (hd (handleTrainAction_trace example_env ''T2'' ''stop'' example_hook)) ! 1 =
       example_short_delay"
    by blast
  from b have d: "delay (trains (hd (handleTrainAction_trace example_env ''T2'' ''expedite'' example_hook)) ! 1) = 0"
    by (simp add: example_short_delay_def)
  from ts ids act a b c d show ?thesis by blast
qed

end
